theory Spec2Isabelle
  imports Main
begin

section \<open>JavaScript values used by AndroidDependencies.js\<close>

text \<open>
  A value that is either a string or absent (\<open>undefined\<close> or \<open>null\<close>) is a
  \<open>string option\<close>. The source tests such values with \<open>if (v)\<close>: an absent value
  and the empty string are both falsy. Concatenating an absent value to a string
  yields the text \<open>undefined\<close>.
\<close>

definition truthy :: "string option \<Rightarrow> bool" where
  "truthy v = (case v of None \<Rightarrow> False | Some s \<Rightarrow> s \<noteq> [])"

definition js_str :: "string option \<Rightarrow> string" where
  "js_str v = (case v of None \<Rightarrow> ''undefined'' | Some s \<Rightarrow> s)"

section \<open>Module constants and module state\<close>

definition BASE_URL :: string where
  "BASE_URL = ''https://download.01.org/crosswalk/releases/crosswalk/android/''"

text \<open>
  \<open>var CHANNELS = ["stable", "beta", "canary"]\<close> is a module variable holding an
  array. The array is kept in a record of the module's state, so that the
  accessor property of the same name and the constructor read the same cell.
\<close>

record module_state =
  CHANNELS :: "string list"

definition module_init :: module_state where
  "module_init = \<lparr>CHANNELS = [''stable'', ''beta'', ''canary'']\<rparr>"

text \<open>
  \<open>Object.defineProperty(AndroidDependencies, "CHANNELS", {get: ..., set: ...})\<close>:
  the getter is \<open>return CHANNELS\<close>, the setter has an empty body. The getter hands
  out the module's array itself, not a copy, and the array is not frozen: what a
  caller does to the array it got is done to the module's cell.
  \<open>CHANNELS_get\<close> is what the caller reads from the array it is given;
  \<open>CHANNELS_get_push\<close> is \<open>AndroidDependencies.CHANNELS.push(x)\<close>, the getter
  followed by the array's own \<open>push\<close>.
\<close>

definition CHANNELS_get :: "module_state \<Rightarrow> string list" where
  "CHANNELS_get m = CHANNELS m"

definition CHANNELS_set :: "'c \<Rightarrow> module_state \<Rightarrow> module_state" where
  "CHANNELS_set config m = m"

definition CHANNELS_get_push :: "string \<Rightarrow> module_state \<Rightarrow> module_state" where
  "CHANNELS_get_push x m = m\<lparr>CHANNELS := CHANNELS_get m @ [x]\<rparr>"

section \<open>Exceptions and the constructor\<close>

datatype exception =
    InvalidChannelError
  | FileCreationFailed
  | ParseError

text \<open>
  \<open>function InvalidChannelError(message) { Error.call(this, message); }\<close>:
  \<open>Error.call\<close> builds a new Error and leaves \<open>this\<close> as it was, so the object
  that is thrown stores no message.
\<close>

definition InvalidChannelError_new :: "string \<Rightarrow> exception" where
  "InvalidChannelError_new message = InvalidChannelError"

record 'a AndroidDependencies =
  application :: 'a
  channel :: "string option"

text \<open>
  \<open>function AndroidDependencies(application, channel)\<close>. The validation is inside
  \<open>if (channel)\<close>; \<open>CHANNELS.indexOf(channel) == -1\<close> is list membership.
  When the guard is not taken \<open>this._channel\<close> is never assigned.
\<close>

definition AndroidDependencies_new ::
  "module_state \<Rightarrow> 'a \<Rightarrow> string option \<Rightarrow> exception + 'a AndroidDependencies" where
  "AndroidDependencies_new m app chan =
     (if truthy chan then
        (if js_str chan \<notin> set (CHANNELS m)
         then Inl (InvalidChannelError_new (''Unknown channel '' @ js_str chan))
         else Inr \<lparr>application = app, channel = chan\<rparr>)
      else Inr \<lparr>application = app, channel = None\<rparr>)"

section \<open>The file system and the process environment\<close>

text \<open>
  The world the resolver acts on: the regular files (path to content), the
  directories in which no file can be created, and the value of the environment
  variable \<open>CROSSWALK_APP_TOOLS_CACHE_DIR\<close> (\<open>None\<close> when it is not set).
  \<open>ShellJS.test("-f", p)\<close> holds when \<open>p\<close> is a regular file.
\<close>

record world =
  files :: "string \<rightharpoonup> string"
  unwritable :: "string list"
  CROSSWALK_APP_TOOLS_CACHE_DIR :: "string option"

definition test_f :: "world \<Rightarrow> string \<Rightarrow> bool" where
  "test_f w p = (files w p \<noteq> None)"

section \<open>findLocally\<close>

definition findLocally :: "world \<Rightarrow> string \<Rightarrow> string option" where
  "findLocally w version =
     (let filename = ''crosswalk-'' @ version @ ''.zip''
      in if test_f w filename then Some filename
         else if test_f w (''../'' @ filename) then Some (''../'' @ filename)
         else None)"

section \<open>Collaborators\<close>

text \<open>
  \<open>fetchVersions\<close> and \<open>download\<close> reach their collaborators through
  \<open>this._application.util\<close>: the classes DownloadHandler, Downloader and
  IndexParser. They are parameters of the resolver, and the operations are
  defined for any such collaborators.
  \<^item> A DownloadHandler is built from the target directory and the file name, so
    each of its methods takes these two first. \<open>findLocally\<close> returns a path or
    nothing; \<open>createStream\<close> returns the world with the stream opened or throws
    (the docstring of \<open>download\<close>: throws FileCreationFailed if the download
    file could not be written); \<open>finish\<close> is given the value of the environment
    variable and returns a value, a path or nothing, or throws: \<open>download\<close>
    passes on what it returns without looking at it.
  \<^item> \<open>DownloadHandler_write\<close> is what the data written to the handler's stream
    does to the world.
  \<^item> A Downloader is built from a URL and a stream; one call of \<open>get\<close> delivers
    the data written to the stream and then calls its completion callback once,
    with an error message or with nothing.
  \<^item> \<open>parse\<close> returns the versions or throws.
\<close>

record Application =
  DownloadHandler_findLocally :: "string \<Rightarrow> string \<Rightarrow> string list \<Rightarrow> world \<Rightarrow> string option"
  DownloadHandler_createStream :: "string \<Rightarrow> string \<Rightarrow> world \<Rightarrow> exception + world"
  DownloadHandler_write :: "string \<Rightarrow> string \<Rightarrow> string \<Rightarrow> world \<Rightarrow> world"
  DownloadHandler_finish ::
    "string \<Rightarrow> string \<Rightarrow> string option \<Rightarrow> world \<Rightarrow> exception + string option \<times> world"
  Downloader_get :: "string \<Rightarrow> string \<times> string option"
  IndexParser_parse :: "string \<Rightarrow> exception + string list"

text \<open>
  What an operation does to its collaborators is recorded as a list of events,
  in program order. The two completion callbacks are events as well, with their
  two arguments; an argument that is not passed is \<open>None\<close>. Progress notifications
  are not recorded.
\<close>

datatype event =
    NewDownloadHandler string string
  | HandlerFindLocally "string list"
  | OutputInfo string
  | CreateFiniteProgress string
  | HandlerCreateStream
  | NewMemoryStream
  | NewDownloader string
  | DownloaderGet
  | IndicatorDone
  | HandlerFinish "string option"
  | NewIndexParser string
  | ParserParse
  | DownloadFinished "string option" "string option"
  | FetchVersionsFinished "string list option" "string option"

text \<open>
  How a call ends: it returns and every handler it registered ran to its end,
  or it throws to its caller, or the handler passed to \<open>downloader.get\<close> throws.
\<close>

datatype status =
    Returned
  | Throws exception
  | ThrowsInCallback exception

record outcome =
  trace :: "event list"
  status :: status
  final :: world

fun is_callback :: "event \<Rightarrow> bool" where
  "is_callback (DownloadFinished p e) = True"
| "is_callback (FetchVersionsFinished v e) = True"
| "is_callback _ = False"

fun is_network :: "event \<Rightarrow> bool" where
  "is_network (NewDownloader u) = True"
| "is_network DownloaderGet = True"
| "is_network _ = False"

fun is_finish :: "event \<Rightarrow> bool" where
  "is_finish (HandlerFinish c) = True"
| "is_finish _ = False"

fun is_findLocally :: "event \<Rightarrow> bool" where
  "is_findLocally (HandlerFindLocally ds) = True"
| "is_findLocally _ = False"

definition callbacks :: "event list \<Rightarrow> event list" where
  "callbacks t = filter is_callback t"

section \<open>fetchVersions\<close>

definition fetchVersions :: "Application AndroidDependencies \<Rightarrow> world \<Rightarrow> outcome" where
  "fetchVersions this w =
     (let util = application this;
          url = BASE_URL @ js_str (channel this) @ ''/'';
          label = ''Fetching '' @ [CHR 0x27] @ js_str (channel this) @ [CHR 0x27]
                    @ '' versions index'';
          t = [NewMemoryStream, NewDownloader url, CreateFiniteProgress label,
               DownloaderGet, IndicatorDone]
      in case Downloader_get util url of (buffer, errormsg) \<Rightarrow>
           if truthy errormsg then
             \<lparr>trace = t @ [FetchVersionsFinished None errormsg], status = Returned, final = w\<rparr>
           else
             (case IndexParser_parse util buffer of
                Inl e \<Rightarrow>
                  \<lparr>trace = t @ [NewIndexParser buffer, ParserParse],
                   status = ThrowsInCallback e, final = w\<rparr>
              | Inr versions \<Rightarrow>
                  \<lparr>trace = t @ [NewIndexParser buffer, ParserParse,
                                 FetchVersionsFinished (Some versions) None],
                   status = Returned, final = w\<rparr>))"

section \<open>download\<close>

text \<open>
  The local variable \<open>localDirs\<close>: \<open>[defaultPath, ""]\<close>, to which the cache
  directory is pushed under \<open>if (process.env.CROSSWALK_APP_TOOLS_CACHE_DIR)\<close>.
\<close>

definition localDirs :: "string \<Rightarrow> world \<Rightarrow> string list" where
  "localDirs defaultPath w =
     [defaultPath, []] @
     (if truthy (CROSSWALK_APP_TOOLS_CACHE_DIR w)
      then [js_str (CROSSWALK_APP_TOOLS_CACHE_DIR w)] else [])"

definition download ::
  "Application AndroidDependencies \<Rightarrow> string \<Rightarrow> string \<Rightarrow> world \<Rightarrow> outcome" where
  "download this version defaultPath w =
     (let util = application this;
          filename = ''crosswalk-'' @ version @ ''.zip'';
          url = BASE_URL @ js_str (channel this) @ ''/'' @ version @ ''/'' @ filename;
          cacheDir = CROSSWALK_APP_TOOLS_CACHE_DIR w;
          dirs = localDirs defaultPath w;
          localPath = DownloadHandler_findLocally util defaultPath filename dirs w;
          t0 = [NewDownloadHandler defaultPath filename, HandlerFindLocally dirs]
      in if truthy localPath then
           \<lparr>trace = t0 @ [OutputInfo (''Using cached '' @ js_str localPath),
                          DownloadFinished localPath None],
            status = Returned, final = w\<rparr>
         else
           (let label = ''Downloading '' @ [CHR 0x27] @ js_str (channel this) @ [CHR 0x27]
                          @ '' '' @ version;
                t1 = t0 @ [CreateFiniteProgress label, HandlerCreateStream]
            in case DownloadHandler_createStream util defaultPath filename w of
                 Inl e \<Rightarrow> \<lparr>trace = t1, status = Throws e, final = w\<rparr>
               | Inr w1 \<Rightarrow>
                   (case Downloader_get util url of (data, errormsg) \<Rightarrow>
                      (let w2 = DownloadHandler_write util defaultPath filename data w1;
                           t2 = t1 @ [NewDownloader url, DownloaderGet, IndicatorDone]
                       in if truthy errormsg then
                            \<lparr>trace = t2 @ [DownloadFinished None errormsg],
                             status = Returned, final = w2\<rparr>
                          else
                            (case DownloadHandler_finish util defaultPath filename cacheDir w2 of
                               Inl e \<Rightarrow>
                                 \<lparr>trace = t2 @ [HandlerFinish cacheDir],
                                  status = ThrowsInCallback e, final = w2\<rparr>
                             | Inr (finishedPath, w3) \<Rightarrow>
                                 \<lparr>trace = t2 @ [HandlerFinish cacheDir,
                                                DownloadFinished finishedPath None],
                                  status = Returned, final = w3\<rparr>)))))"

section \<open>The DownloadHandler of the specification\<close>

text \<open>
  Modelled from the spec: the class DownloadHandler (\<open>findLocally\<close>,
  \<open>createStream\<close>, \<open>finish\<close>) and the stream it hands to the Downloader are not
  among the sources. The specification says that a handler, given a target
  directory and a file name, searches a list of candidate directories for an
  existing file, in order, the first match winning, by an existence check only;
  creates a writable stream for a new download, which fails with
  FileCreationFailed when the destination is not writable; and finalizes a
  completed download by renaming it from a temporary name into place and, when
  a cache directory is given, copying it there as well. The temporary name is
  the final path with a suffix; joining a directory and a file name puts one
  separator between them, and the empty directory is the current one.
\<close>

definition path_join :: "string \<Rightarrow> string \<Rightarrow> string" where
  "path_join dir name =
     (if dir = [] then name
      else if last dir = CHR ''/'' then dir @ name
      else dir @ ''/'' @ name)"

definition temporary_path :: "string \<Rightarrow> string \<Rightarrow> string" where
  "temporary_path toPath filename = path_join toPath filename @ ''.part''"

fun spec_findLocally :: "string \<Rightarrow> string \<Rightarrow> string list \<Rightarrow> world \<Rightarrow> string option" where
  "spec_findLocally toPath filename [] w = None"
| "spec_findLocally toPath filename (d # ds) w =
     (if test_f w (path_join d filename) then Some (path_join d filename)
      else spec_findLocally toPath filename ds w)"

definition spec_createStream :: "string \<Rightarrow> string \<Rightarrow> world \<Rightarrow> exception + world" where
  "spec_createStream toPath filename w =
     (if toPath \<in> set (unwritable w) then Inl FileCreationFailed
      else Inr (w\<lparr>files := (files w)(temporary_path toPath filename \<mapsto> [])\<rparr>))"

definition spec_write :: "string \<Rightarrow> string \<Rightarrow> string \<Rightarrow> world \<Rightarrow> world" where
  "spec_write toPath filename data w =
     (let tmp = temporary_path toPath filename
      in w\<lparr>files := (files w)(tmp \<mapsto>
              (case files w tmp of None \<Rightarrow> data | Some old \<Rightarrow> old @ data))\<rparr>)"

definition spec_finish ::
  "string \<Rightarrow> string \<Rightarrow> string option \<Rightarrow> world \<Rightarrow> exception + string option \<times> world" where
  "spec_finish toPath filename cacheDir w =
     (let tmp = temporary_path toPath filename;
          finishedPath = path_join toPath filename;
          content = (case files w tmp of None \<Rightarrow> [] | Some c \<Rightarrow> c);
          renamed = ((files w)(tmp := None))(finishedPath \<mapsto> content);
          cached = (if truthy cacheDir
                    then renamed(path_join (js_str cacheDir) filename \<mapsto> content)
                    else renamed)
      in Inr (Some finishedPath, w\<lparr>files := cached\<rparr>))"

definition spec_application ::
  "(string \<Rightarrow> string \<times> string option) \<Rightarrow> (string \<Rightarrow> exception + string list)
     \<Rightarrow> Application" where
  "spec_application get parse =
     \<lparr>DownloadHandler_findLocally = spec_findLocally,
      DownloadHandler_createStream = spec_createStream,
      DownloadHandler_write = spec_write,
      DownloadHandler_finish = spec_finish,
      Downloader_get = get,
      IndexParser_parse = parse\<rparr>"

section \<open>Sample transports, parser, resolver and worlds\<close>

text \<open>
  Concrete collaborators and worlds on which the operations are evaluated:
  a transport that succeeds, one that fails after delivering part of the data,
  a parser that returns two versions, a resolver on the stable channel, and
  worlds (nothing on disk; the archive present in the cache directory named by
  the environment; a destination directory that is not writable; archives in
  the current and the parent directory).
\<close>

definition sample_get_ok :: "string \<Rightarrow> string \<times> string option" where
  "sample_get_ok url = (''PK-archive'', None)"

definition sample_get_failing :: "string \<Rightarrow> string \<times> string option" where
  "sample_get_failing url = (''PK-arch'', Some ''Download failed: socket hang up'')"

definition sample_parse :: "string \<Rightarrow> exception + string list" where
  "sample_parse body = Inr [''14.43.343.25'', ''14.44.360.4'']"

definition sample_resolver ::
  "(string \<Rightarrow> string \<times> string option) \<Rightarrow> Application AndroidDependencies" where
  "sample_resolver get =
     \<lparr>application = spec_application get sample_parse, channel = Some ''stable''\<rparr>"

definition world_empty :: world where
  "world_empty =
     \<lparr>files = Map.empty, unwritable = [], CROSSWALK_APP_TOOLS_CACHE_DIR = None\<rparr>"

definition world_cached :: world where
  "world_cached =
     \<lparr>files = Map.empty(''/tmp/cache/crosswalk-14.44.360.4.zip'' \<mapsto> ''PK-archive''),
      unwritable = [],
      CROSSWALK_APP_TOOLS_CACHE_DIR = Some ''/tmp/cache''\<rparr>"

definition world_readonly :: world where
  "world_readonly =
     \<lparr>files = Map.empty, unwritable = [''/readonly''],
      CROSSWALK_APP_TOOLS_CACHE_DIR = None\<rparr>"

definition world_both :: world where
  "world_both =
     \<lparr>files = Map.empty(''crosswalk-14.44.360.4.zip'' \<mapsto> ''PK-archive'',
                        ''../crosswalk-14.44.360.4.zip'' \<mapsto> ''PK-older'',
                        ''../crosswalk-14.43.343.25.zip'' \<mapsto> ''PK-archive''),
      unwritable = [], CROSSWALK_APP_TOOLS_CACHE_DIR = None\<rparr>"

section \<open>Properties\<close>

subsection \<open>The five ways through download\<close>

lemma download_hit:
  assumes "truthy (DownloadHandler_findLocally (application this) defaultPath
             (''crosswalk-'' @ version @ ''.zip'') (localDirs defaultPath w) w)"
  shows "download this version defaultPath w =
     \<lparr>trace = [NewDownloadHandler defaultPath (''crosswalk-'' @ version @ ''.zip''),
               HandlerFindLocally (localDirs defaultPath w),
               OutputInfo (''Using cached '' @ js_str (DownloadHandler_findLocally (application this)
                  defaultPath (''crosswalk-'' @ version @ ''.zip'') (localDirs defaultPath w) w)),
               DownloadFinished (DownloadHandler_findLocally (application this) defaultPath
                  (''crosswalk-'' @ version @ ''.zip'') (localDirs defaultPath w) w) None],
      status = Returned, final = w\<rparr>"
  using assms by (simp add: download_def Let_def)

lemma download_throws:
  assumes "\<not> truthy (DownloadHandler_findLocally (application this) defaultPath
             (''crosswalk-'' @ version @ ''.zip'') (localDirs defaultPath w) w)"
    and "DownloadHandler_createStream (application this) defaultPath
             (''crosswalk-'' @ version @ ''.zip'') w = Inl e"
  shows "download this version defaultPath w =
     \<lparr>trace = [NewDownloadHandler defaultPath (''crosswalk-'' @ version @ ''.zip''),
               HandlerFindLocally (localDirs defaultPath w),
               CreateFiniteProgress (''Downloading '' @ [CHR 0x27] @ js_str (channel this)
                  @ [CHR 0x27] @ '' '' @ version),
               HandlerCreateStream],
      status = Throws e, final = w\<rparr>"
  using assms by (simp add: download_def Let_def)

lemma download_transfer_error:
  assumes "\<not> truthy (DownloadHandler_findLocally (application this) defaultPath
             (''crosswalk-'' @ version @ ''.zip'') (localDirs defaultPath w) w)"
    and "DownloadHandler_createStream (application this) defaultPath
             (''crosswalk-'' @ version @ ''.zip'') w = Inr w1"
    and "Downloader_get (application this)
           (BASE_URL @ js_str (channel this) @ ''/'' @ version @ ''/''
              @ ''crosswalk-'' @ version @ ''.zip'') = (data, errormsg)"
    and "truthy errormsg"
  shows "download this version defaultPath w =
     \<lparr>trace = [NewDownloadHandler defaultPath (''crosswalk-'' @ version @ ''.zip''),
               HandlerFindLocally (localDirs defaultPath w),
               CreateFiniteProgress (''Downloading '' @ [CHR 0x27] @ js_str (channel this)
                  @ [CHR 0x27] @ '' '' @ version),
               HandlerCreateStream,
               NewDownloader (BASE_URL @ js_str (channel this) @ ''/'' @ version @ ''/''
                  @ ''crosswalk-'' @ version @ ''.zip''),
               DownloaderGet, IndicatorDone,
               DownloadFinished None errormsg],
      status = Returned,
      final = DownloadHandler_write (application this) defaultPath
                (''crosswalk-'' @ version @ ''.zip'') data w1\<rparr>"
  using assms by (simp add: download_def Let_def)

lemma download_finalized:
  assumes "\<not> truthy (DownloadHandler_findLocally (application this) defaultPath
             (''crosswalk-'' @ version @ ''.zip'') (localDirs defaultPath w) w)"
    and "DownloadHandler_createStream (application this) defaultPath
             (''crosswalk-'' @ version @ ''.zip'') w = Inr w1"
    and "Downloader_get (application this)
           (BASE_URL @ js_str (channel this) @ ''/'' @ version @ ''/''
              @ ''crosswalk-'' @ version @ ''.zip'') = (data, errormsg)"
    and "\<not> truthy errormsg"
    and "DownloadHandler_finish (application this) defaultPath
           (''crosswalk-'' @ version @ ''.zip'') (CROSSWALK_APP_TOOLS_CACHE_DIR w)
           (DownloadHandler_write (application this) defaultPath
              (''crosswalk-'' @ version @ ''.zip'') data w1) = Inr (finishedPath, w3)"
  shows "download this version defaultPath w =
     \<lparr>trace = [NewDownloadHandler defaultPath (''crosswalk-'' @ version @ ''.zip''),
               HandlerFindLocally (localDirs defaultPath w),
               CreateFiniteProgress (''Downloading '' @ [CHR 0x27] @ js_str (channel this)
                  @ [CHR 0x27] @ '' '' @ version),
               HandlerCreateStream,
               NewDownloader (BASE_URL @ js_str (channel this) @ ''/'' @ version @ ''/''
                  @ ''crosswalk-'' @ version @ ''.zip''),
               DownloaderGet, IndicatorDone,
               HandlerFinish (CROSSWALK_APP_TOOLS_CACHE_DIR w),
               DownloadFinished finishedPath None],
      status = Returned, final = w3\<rparr>"
  using assms by (simp add: download_def Let_def)

lemma download_finish_throws:
  assumes "\<not> truthy (DownloadHandler_findLocally (application this) defaultPath
             (''crosswalk-'' @ version @ ''.zip'') (localDirs defaultPath w) w)"
    and "DownloadHandler_createStream (application this) defaultPath
             (''crosswalk-'' @ version @ ''.zip'') w = Inr w1"
    and "Downloader_get (application this)
           (BASE_URL @ js_str (channel this) @ ''/'' @ version @ ''/''
              @ ''crosswalk-'' @ version @ ''.zip'') = (data, errormsg)"
    and "\<not> truthy errormsg"
    and "DownloadHandler_finish (application this) defaultPath
           (''crosswalk-'' @ version @ ''.zip'') (CROSSWALK_APP_TOOLS_CACHE_DIR w)
           (DownloadHandler_write (application this) defaultPath
              (''crosswalk-'' @ version @ ''.zip'') data w1) = Inl e"
  shows "download this version defaultPath w =
     \<lparr>trace = [NewDownloadHandler defaultPath (''crosswalk-'' @ version @ ''.zip''),
               HandlerFindLocally (localDirs defaultPath w),
               CreateFiniteProgress (''Downloading '' @ [CHR 0x27] @ js_str (channel this)
                  @ [CHR 0x27] @ '' '' @ version),
               HandlerCreateStream,
               NewDownloader (BASE_URL @ js_str (channel this) @ ''/'' @ version @ ''/''
                  @ ''crosswalk-'' @ version @ ''.zip''),
               DownloaderGet, IndicatorDone,
               HandlerFinish (CROSSWALK_APP_TOOLS_CACHE_DIR w)],
      status = ThrowsInCallback e,
      final = DownloadHandler_write (application this) defaultPath
                (''crosswalk-'' @ version @ ''.zip'') data w1\<rparr>"
  using assms by (simp add: download_def Let_def)

text \<open>Every call of download goes one of the five ways.\<close>

lemma download_cases:
  obtains
    (hit) "truthy (DownloadHandler_findLocally (application this) defaultPath
             (''crosswalk-'' @ version @ ''.zip'') (localDirs defaultPath w) w)"
  | (throws) e where
      "\<not> truthy (DownloadHandler_findLocally (application this) defaultPath
             (''crosswalk-'' @ version @ ''.zip'') (localDirs defaultPath w) w)"
      "DownloadHandler_createStream (application this) defaultPath
             (''crosswalk-'' @ version @ ''.zip'') w = Inl e"
  | (error) w1 data errormsg where
      "\<not> truthy (DownloadHandler_findLocally (application this) defaultPath
             (''crosswalk-'' @ version @ ''.zip'') (localDirs defaultPath w) w)"
      "DownloadHandler_createStream (application this) defaultPath
             (''crosswalk-'' @ version @ ''.zip'') w = Inr w1"
      "Downloader_get (application this)
           (BASE_URL @ js_str (channel this) @ ''/'' @ version @ ''/''
              @ ''crosswalk-'' @ version @ ''.zip'') = (data, errormsg)"
      "truthy errormsg"
  | (finalized) w1 data errormsg finishedPath w3 where
      "\<not> truthy (DownloadHandler_findLocally (application this) defaultPath
             (''crosswalk-'' @ version @ ''.zip'') (localDirs defaultPath w) w)"
      "DownloadHandler_createStream (application this) defaultPath
             (''crosswalk-'' @ version @ ''.zip'') w = Inr w1"
      "Downloader_get (application this)
           (BASE_URL @ js_str (channel this) @ ''/'' @ version @ ''/''
              @ ''crosswalk-'' @ version @ ''.zip'') = (data, errormsg)"
      "\<not> truthy errormsg"
      "DownloadHandler_finish (application this) defaultPath
           (''crosswalk-'' @ version @ ''.zip'') (CROSSWALK_APP_TOOLS_CACHE_DIR w)
           (DownloadHandler_write (application this) defaultPath
              (''crosswalk-'' @ version @ ''.zip'') data w1) = Inr (finishedPath, w3)"
  | (finish_throws) w1 data errormsg e where
      "\<not> truthy (DownloadHandler_findLocally (application this) defaultPath
             (''crosswalk-'' @ version @ ''.zip'') (localDirs defaultPath w) w)"
      "DownloadHandler_createStream (application this) defaultPath
             (''crosswalk-'' @ version @ ''.zip'') w = Inr w1"
      "Downloader_get (application this)
           (BASE_URL @ js_str (channel this) @ ''/'' @ version @ ''/''
              @ ''crosswalk-'' @ version @ ''.zip'') = (data, errormsg)"
      "\<not> truthy errormsg"
      "DownloadHandler_finish (application this) defaultPath
           (''crosswalk-'' @ version @ ''.zip'') (CROSSWALK_APP_TOOLS_CACHE_DIR w)
           (DownloadHandler_write (application this) defaultPath
              (''crosswalk-'' @ version @ ''.zip'') data w1) = Inl e"
proof (cases "truthy (DownloadHandler_findLocally (application this) defaultPath
             (''crosswalk-'' @ version @ ''.zip'') (localDirs defaultPath w) w)")
  case True
  then show ?thesis by (rule hit)
next
  case miss: False
  show ?thesis
  proof (cases "DownloadHandler_createStream (application this) defaultPath
             (''crosswalk-'' @ version @ ''.zip'') w")
    case (Inl e)
    with miss show ?thesis by (rule throws)
  next
    case (Inr w1)
    obtain data errormsg where g: "Downloader_get (application this)
           (BASE_URL @ js_str (channel this) @ ''/'' @ version @ ''/''
              @ ''crosswalk-'' @ version @ ''.zip'') = (data, errormsg)"
      by (cases "Downloader_get (application this)
           (BASE_URL @ js_str (channel this) @ ''/'' @ version @ ''/''
              @ ''crosswalk-'' @ version @ ''.zip'')") auto
    show ?thesis
    proof (cases "truthy errormsg")
      case True
      with miss Inr g show ?thesis by (rule error)
    next
      case False
      note noerr = False
      show ?thesis
      proof (cases "DownloadHandler_finish (application this) defaultPath
           (''crosswalk-'' @ version @ ''.zip'') (CROSSWALK_APP_TOOLS_CACHE_DIR w)
           (DownloadHandler_write (application this) defaultPath
              (''crosswalk-'' @ version @ ''.zip'') data w1)")
        case (Inl e)
        with miss Inr g noerr show ?thesis by (rule finish_throws)
      next
        case fin: (Inr r)
        obtain finishedPath w3 where "r = (finishedPath, w3)" by (cases r) auto
        with fin have "DownloadHandler_finish (application this) defaultPath
           (''crosswalk-'' @ version @ ''.zip'') (CROSSWALK_APP_TOOLS_CACHE_DIR w)
           (DownloadHandler_write (application this) defaultPath
              (''crosswalk-'' @ version @ ''.zip'') data w1) = Inr (finishedPath, w3)"
          by simp
        with miss Inr g noerr show ?thesis by (rule finalized)
      qed
    qed
  qed
qed


subsection \<open>Facts about the handler of the specification\<close>

lemma path_join_nonempty: "name \<noteq> [] \<Longrightarrow> path_join dir name \<noteq> []"
  by (simp add: path_join_def)

lemma temporary_path_differs: "temporary_path toPath filename \<noteq> path_join toPath filename"
  by (simp add: temporary_path_def)

lemma spec_findLocally_Some:
  "spec_findLocally tp fn ds w = Some p \<Longrightarrow> \<exists>d\<in>set ds. p = path_join d fn \<and> test_f w p"
  by (induction ds) (auto split: if_splits)

lemma spec_findLocally_first:
  "\<forall>x\<in>set ds1. \<not> test_f w (path_join x fn) \<Longrightarrow> test_f w (path_join d fn) \<Longrightarrow>
   spec_findLocally tp fn (ds1 @ d # ds2) w = Some (path_join d fn)"
  by (induction ds1) auto

lemma spec_findLocally_truthy:
  "fn \<noteq> [] \<Longrightarrow>
   truthy (spec_findLocally tp fn ds w) \<longleftrightarrow> (\<exists>d\<in>set ds. test_f w (path_join d fn))"
  by (induction ds) (auto simp: truthy_def path_join_nonempty)

lemma spec_findLocally_existence_only:
  "dom f' = dom (files w) \<Longrightarrow>
   spec_findLocally tp fn ds (w\<lparr>files := f'\<rparr>) = spec_findLocally tp fn ds w"
  by (induction ds) (auto simp: test_f_def domIff dest: equalityD1 equalityD2)

lemma truthy_Some: "truthy v \<Longrightarrow> \<exists>s. v = Some s \<and> s \<noteq> []"
  by (cases v) (auto simp: truthy_def)

subsection \<open>Transfers\<close>

lemma count_get_fetchVersions:
  "length (filter (\<lambda>e. e = DownloaderGet) (trace (fetchVersions this w))) = 1"
  by (simp add: fetchVersions_def Let_def split: prod.splits sum.splits)

lemma count_get_download:
  "length (filter (\<lambda>e. e = DownloaderGet) (trace (download this version defaultPath w))) \<le> 1"
proof (cases rule: download_cases [of this defaultPath version w])
  case hit
  then show ?thesis by (simp add: download_hit)
next
  case (throws e)
  show ?thesis by (simp add: download_throws [OF throws])
next
  case (error w' data errormsg)
  show ?thesis by (simp add: download_transfer_error [OF error])
next
  case (finalized w' data errormsg finishedPath w3)
  show ?thesis by (simp add: download_finalized [OF finalized])
next
  case (finish_throws w' data errormsg e)
  show ?thesis by (simp add: download_finish_throws [OF finish_throws])
qed

lemma download_started_error:
  assumes started: "DownloaderGet \<in> set (trace (download this version defaultPath w))"
    and get: "Downloader_get (application this)
                (BASE_URL @ js_str (channel this) @ ''/'' @ version @ ''/''
                   @ ''crosswalk-'' @ version @ ''.zip'') = (data, errormsg)"
    and err: "truthy errormsg"
  shows "callbacks (trace (download this version defaultPath w)) = [DownloadFinished None errormsg]
         \<and> status (download this version defaultPath w) = Returned"
proof (cases rule: download_cases [of this defaultPath version w])
  case hit
  with started show ?thesis by (simp add: download_hit)
next
  case (throws e)
  from started show ?thesis by (simp add: download_throws [OF throws])
next
  case (error w' data' errormsg')
  from error(3) get have "errormsg' = errormsg" by simp
  then show ?thesis by (simp add: download_transfer_error [OF error] callbacks_def)
next
  case (finalized w' data' errormsg' finishedPath w3)
  from finalized(3) get have "errormsg' = errormsg" by simp
  with finalized(4) err show ?thesis by simp
next
  case (finish_throws w' data' errormsg' e)
  from finish_throws(3) get have "errormsg' = errormsg" by simp
  with finish_throws(4) err show ?thesis by simp
qed

subsection \<open>The sample runs\<close>

lemma sample_failing_download:
  "download (sample_resolver sample_get_failing) ''14.44.360.4'' ''out'' world_empty =
     \<lparr>trace = [NewDownloadHandler ''out'' ''crosswalk-14.44.360.4.zip'',
               HandlerFindLocally [''out'', []],
               CreateFiniteProgress (''Downloading '' @ [CHR 0x27] @ ''stable'' @ [CHR 0x27]
                  @ '' 14.44.360.4''),
               HandlerCreateStream,
               NewDownloader (BASE_URL @ ''stable/14.44.360.4/crosswalk-14.44.360.4.zip''),
               DownloaderGet, IndicatorDone,
               DownloadFinished None (Some ''Download failed: socket hang up'')],
      status = Returned,
      final = world_empty\<lparr>files :=
                Map.empty(''out/crosswalk-14.44.360.4.zip.part'' \<mapsto> ''PK-arch'')\<rparr>\<rparr>"
  by (simp add: download_def Let_def sample_resolver_def spec_application_def
        sample_get_failing_def localDirs_def world_empty_def truthy_def js_str_def test_f_def
        path_join_def spec_createStream_def spec_write_def temporary_path_def)

lemma sample_readonly_download:
  "download (sample_resolver sample_get_ok) ''14.44.360.4'' ''/readonly'' world_readonly =
     \<lparr>trace = [NewDownloadHandler ''/readonly'' ''crosswalk-14.44.360.4.zip'',
               HandlerFindLocally [''/readonly'', ''''],
               CreateFiniteProgress (''Downloading '' @ [CHR 0x27] @ ''stable'' @ [CHR 0x27]
                  @ '' 14.44.360.4''),
               HandlerCreateStream],
      status = Throws FileCreationFailed,
      final = world_readonly\<rparr>"
  by (simp add: download_def Let_def sample_resolver_def spec_application_def
        localDirs_def world_readonly_def truthy_def js_str_def test_f_def
        path_join_def spec_createStream_def)


lemma sample_ok_download:
  "download (sample_resolver sample_get_ok) ''14.44.360.4'' ''out'' world_empty =
     \<lparr>trace = [NewDownloadHandler ''out'' ''crosswalk-14.44.360.4.zip'',
               HandlerFindLocally [''out'', ''''],
               CreateFiniteProgress (''Downloading '' @ [CHR 0x27] @ ''stable'' @ [CHR 0x27]
                  @ '' 14.44.360.4''),
               HandlerCreateStream,
               NewDownloader (BASE_URL @ ''stable/14.44.360.4/crosswalk-14.44.360.4.zip''),
               DownloaderGet, IndicatorDone, HandlerFinish None,
               DownloadFinished (Some ''out/crosswalk-14.44.360.4.zip'') None],
      status = Returned,
      final = world_empty\<lparr>files :=
                Map.empty(''out/crosswalk-14.44.360.4.zip'' \<mapsto> ''PK-archive'')\<rparr>\<rparr>"
  by (simp add: download_def Let_def sample_resolver_def spec_application_def
        sample_get_ok_def localDirs_def world_empty_def truthy_def js_str_def test_f_def
        path_join_def spec_createStream_def spec_write_def spec_finish_def temporary_path_def
        fun_upd_twist)

subsection \<open>Assignments to the CHANNELS property\<close>

lemma CHANNELS_assignment_noop:
  "CHANNELS_get (fold CHANNELS_set configs m) = CHANNELS_get m
   \<and> AndroidDependencies_new (CHANNELS_set config m) app chan = AndroidDependencies_new m app chan"
proof -
  have "fold CHANNELS_set configs m' = m'" for m' :: module_state and configs :: "'a list"
    by (induction configs) (simp_all add: CHANNELS_set_def)
  then show ?thesis
    by (simp add: CHANNELS_set_def)
qed

section \<open>The claims\<close>

text \<open>
  C1 (as amended). A non-empty channel outside the list of valid channels is
  rejected with InvalidChannelError; an empty or absent channel skips the
  validation and the resolver is built with no channel.
\<close>

theorem constructor_validates_nonempty_channel:
  "(truthy chan \<and> js_str chan \<notin> set (CHANNELS m) \<longrightarrow>
      AndroidDependencies_new m app chan = Inl InvalidChannelError)
   \<and> (\<not> truthy chan \<longrightarrow>
      AndroidDependencies_new m app chan = Inr \<lparr>application = app, channel = None\<rparr>)"
  by (simp add: AndroidDependencies_new_def InvalidChannelError_new_def)

theorem constructor_validates_nonempty_channel_witness:
  "AndroidDependencies_new module_init () (Some ''nightly'') = Inl InvalidChannelError
   \<and> AndroidDependencies_new module_init () (Some '''')
     = Inr \<lparr>application = (), channel = None\<rparr>
   \<and> AndroidDependencies_new module_init () None
     = Inr \<lparr>application = (), channel = None\<rparr>"
  using constructor_validates_nonempty_channel [of "Some ''nightly''" module_init "()"]
        constructor_validates_nonempty_channel [of "Some ''''" module_init "()"]
        constructor_validates_nonempty_channel [of None module_init "()"]
  by (simp add: truthy_def js_str_def module_init_def)

theorem constructor_accepts_empty_channel:
  "[] \<notin> set (CHANNELS module_init)
   \<and> AndroidDependencies_new module_init () (Some [])
       = Inr \<lparr>application = (), channel = None\<rparr>"
  by (simp add: AndroidDependencies_new_def truthy_def module_init_def)

text \<open>
  C2. When the handler's search returns a path, download calls back once with
  that path and no error message, builds and invokes no Downloader, and leaves
  the world as it was. With the DownloadHandler of the specification the search
  returns a path whenever crosswalk-version.zip is a file in one of the searched
  directories, and the path is that of such a file.
\<close>

theorem download_cached_no_network:
  "(truthy (DownloadHandler_findLocally (application this) defaultPath
       (''crosswalk-'' @ version @ ''.zip'') (localDirs defaultPath w) w)
    \<longrightarrow> callbacks (trace (download this version defaultPath w))
          = [DownloadFinished (DownloadHandler_findLocally (application this) defaultPath
               (''crosswalk-'' @ version @ ''.zip'') (localDirs defaultPath w) w) None]
        \<and> (\<forall>e\<in>set (trace (download this version defaultPath w)). \<not> is_network e)
        \<and> status (download this version defaultPath w) = Returned
        \<and> final (download this version defaultPath w) = w)
   \<and> (application this = spec_application transfer parse
      \<and> d \<in> set (localDirs defaultPath w)
      \<and> test_f w (path_join d (''crosswalk-'' @ version @ ''.zip''))
    \<longrightarrow> (\<exists>p. p \<in> (\<lambda>x. path_join x (''crosswalk-'' @ version @ ''.zip''))
                   ` set (localDirs defaultPath w)
           \<and> test_f w p
           \<and> callbacks (trace (download this version defaultPath w))
               = [DownloadFinished (Some p) None]
           \<and> (\<forall>e\<in>set (trace (download this version defaultPath w)). \<not> is_network e)
           \<and> status (download this version defaultPath w) = Returned
           \<and> final (download this version defaultPath w) = w))"
proof -
  let ?fn = "''crosswalk-'' @ version @ ''.zip''"
  let ?out = "download this version defaultPath w"
  let ?found = "DownloadHandler_findLocally (application this) defaultPath ?fn
                  (localDirs defaultPath w) w"
  have hit: "callbacks (trace ?out) = [DownloadFinished ?found None]
        \<and> (\<forall>e\<in>set (trace ?out). \<not> is_network e)
        \<and> status ?out = Returned \<and> final ?out = w" if t: "truthy ?found"
    unfolding download_hit [OF t] by (simp add: callbacks_def)
  have "\<exists>p. p \<in> (\<lambda>x. path_join x ?fn) ` set (localDirs defaultPath w)
           \<and> test_f w p
           \<and> callbacks (trace ?out) = [DownloadFinished (Some p) None]
           \<and> (\<forall>e\<in>set (trace ?out). \<not> is_network e)
           \<and> status ?out = Returned \<and> final ?out = w"
    if app: "application this = spec_application transfer parse"
      and d: "d \<in> set (localDirs defaultPath w)"
      and ex: "test_f w (path_join d ?fn)"
  proof -
    let ?lp = "spec_findLocally defaultPath ?fn (localDirs defaultPath w) w"
    have h: "?found = ?lp"
      by (simp add: app spec_application_def)
    have t: "truthy ?lp"
      using d ex spec_findLocally_truthy [of ?fn defaultPath "localDirs defaultPath w" w] by auto
    then obtain p where p: "?lp = Some p"
      using truthy_Some by blast
    from spec_findLocally_Some [OF p] have
      "p \<in> (\<lambda>x. path_join x ?fn) ` set (localDirs defaultPath w)" "test_f w p"
      by auto
    moreover from t have "truthy ?found" unfolding h .
    from hit [OF this] have "callbacks (trace ?out) = [DownloadFinished (Some p) None]
        \<and> (\<forall>e\<in>set (trace ?out). \<not> is_network e)
        \<and> status ?out = Returned \<and> final ?out = w"
      unfolding h p .
    ultimately show ?thesis by blast
  qed
  with hit show ?thesis by blast
qed

theorem download_cached_no_network_witness:
  "callbacks (trace (download (sample_resolver sample_get_ok) ''14.44.360.4'' ''./out'' world_cached))
     = [DownloadFinished (Some ''/tmp/cache/crosswalk-14.44.360.4.zip'') None]
   \<and> filter is_network
        (trace (download (sample_resolver sample_get_ok) ''14.44.360.4'' ''./out'' world_cached)) = []
   \<and> final (download (sample_resolver sample_get_ok) ''14.44.360.4'' ''./out'' world_cached)
       = world_cached"
proof -
  let ?out = "download (sample_resolver sample_get_ok) ''14.44.360.4'' ''./out'' world_cached"
  have a: "application (sample_resolver sample_get_ok) = spec_application sample_get_ok sample_parse"
    by (simp add: sample_resolver_def)
  have b: "''/tmp/cache'' \<in> set (localDirs ''./out'' world_cached)"
    by (simp add: localDirs_def world_cached_def truthy_def js_str_def)
  have c: "test_f world_cached (path_join ''/tmp/cache'' (''crosswalk-'' @ ''14.44.360.4'' @ ''.zip''))"
    by (simp add: test_f_def world_cached_def path_join_def)
  have f: "test_f world_cached q \<longleftrightarrow> q = ''/tmp/cache/crosswalk-14.44.360.4.zip''" for q
    by (simp add: test_f_def world_cached_def)
  from download_cached_no_network
         [of "sample_resolver sample_get_ok" "''./out''" "''14.44.360.4''" world_cached
             sample_get_ok sample_parse "''/tmp/cache''"] a b c
  obtain p where
    p: "test_f world_cached p"
       "callbacks (trace ?out) = [DownloadFinished (Some p) None]"
       "\<forall>e\<in>set (trace ?out). \<not> is_network e"
       "final ?out = world_cached"
    by blast
  from p(1) have "p = ''/tmp/cache/crosswalk-14.44.360.4.zip''" by (simp add: f)
  with p(2,3,4) show ?thesis by (simp add: filter_empty_conv)
qed

text \<open>
  C3. When the transfer started by download reports an error message, finish is
  not called and the callback is called once, with no path and that message.
  With the DownloadHandler of the specification, which writes the transfer to a
  temporary name and puts a file at the final path only in finish, no file is at
  the final destination path afterwards.
\<close>

theorem download_transfer_error_not_finalized:
  assumes started: "DownloaderGet \<in> set (trace (download this version defaultPath w))"
    and get: "Downloader_get (application this)
                (BASE_URL @ js_str (channel this) @ ''/'' @ version @ ''/''
                   @ ''crosswalk-'' @ version @ ''.zip'') = (data, errormsg)"
    and err: "truthy errormsg"
  shows "(\<forall>e\<in>set (trace (download this version defaultPath w)). \<not> is_finish e)
       \<and> callbacks (trace (download this version defaultPath w)) = [DownloadFinished None errormsg]
       \<and> status (download this version defaultPath w) = Returned
       \<and> (application this = spec_application transfer parse \<longrightarrow>
            \<not> test_f (final (download this version defaultPath w))
                 (path_join defaultPath (''crosswalk-'' @ version @ ''.zip'')))"
proof (cases rule: download_cases [of this defaultPath version w])
  case hit
  with started show ?thesis by (simp add: download_hit)
next
  case (throws e)
  from started show ?thesis by (simp add: download_throws [OF throws])
next
  case (error w' data' errormsg')
  let ?fn = "''crosswalk-'' @ version @ ''.zip''"
  from error(3) get have same: "data' = data" "errormsg' = errormsg" by simp_all
  note run = download_transfer_error [OF error]
  have "\<not> test_f (final (download this version defaultPath w)) (path_join defaultPath ?fn)"
    if app: "application this = spec_application transfer parse"
  proof -
    have "\<not> truthy (spec_findLocally defaultPath ?fn (localDirs defaultPath w) w)"
      using error(1) by (simp add: app spec_application_def)
    then have "\<forall>d\<in>set (localDirs defaultPath w). \<not> test_f w (path_join d ?fn)"
      using spec_findLocally_truthy [of ?fn defaultPath "localDirs defaultPath w" w] by simp
    then have absent: "files w (path_join defaultPath ?fn) = None"
      by (simp add: localDirs_def test_f_def)
    have "spec_createStream defaultPath ?fn w = Inr w'"
      using error(2) by (simp add: app spec_application_def)
    then have w': "w' = w\<lparr>files := (files w)(temporary_path defaultPath ?fn \<mapsto> [])\<rparr>"
      by (auto simp: spec_createStream_def split: if_splits)
    have "final (download this version defaultPath w) = spec_write defaultPath ?fn data' w'"
      unfolding run by (simp add: app spec_application_def)
    then show ?thesis
      using absent temporary_path_differs [of defaultPath ?fn]
      by (auto simp: w' spec_write_def Let_def test_f_def)
  qed
  then show ?thesis
    unfolding run by (simp add: callbacks_def same)
next
  case (finalized w' data' errormsg' finishedPath w3)
  from finalized(3) get have "errormsg' = errormsg" by simp
  with finalized(4) err show ?thesis by simp
next
  case (finish_throws w' data' errormsg' e)
  from finish_throws(3) get have "errormsg' = errormsg" by simp
  with finish_throws(4) err show ?thesis by simp
qed

theorem download_transfer_error_not_finalized_witness:
  "filter is_finish
     (trace (download (sample_resolver sample_get_failing) ''14.44.360.4'' ''out'' world_empty)) = []
   \<and> callbacks (trace (download (sample_resolver sample_get_failing) ''14.44.360.4'' ''out''
        world_empty)) = [DownloadFinished None (Some ''Download failed: socket hang up'')]
   \<and> files (final (download (sample_resolver sample_get_failing) ''14.44.360.4'' ''out''
        world_empty)) ''out/crosswalk-14.44.360.4.zip'' = None"
proof -
  have a: "DownloaderGet \<in> set (trace (download (sample_resolver sample_get_failing)
             ''14.44.360.4'' ''out'' world_empty))"
    by (simp add: sample_failing_download)
  have b: "Downloader_get (application (sample_resolver sample_get_failing))
             (BASE_URL @ js_str (channel (sample_resolver sample_get_failing)) @ ''/''
                @ ''14.44.360.4'' @ ''/'' @ ''crosswalk-'' @ ''14.44.360.4'' @ ''.zip'')
           = (''PK-arch'', Some ''Download failed: socket hang up'')"
    by (simp add: sample_resolver_def spec_application_def sample_get_failing_def)
  have c: "truthy (Some ''Download failed: socket hang up'')"
    by (simp add: truthy_def)
  have d: "application (sample_resolver sample_get_failing)
             = spec_application sample_get_failing sample_parse"
    by (simp add: sample_resolver_def)
  from download_transfer_error_not_finalized
         [OF a b c, of sample_get_failing sample_parse] d
  show ?thesis
    by (simp add: filter_empty_conv test_f_def path_join_def)
qed

text \<open>
  C4 (as amended). An error message reported by the transfer reaches the caller
  as the second argument of the completion callback, with no result, in
  fetchVersions and in download, and the operation returns; fetchVersions
  invokes the Downloader once and download at most once, so nothing is retried.
  A failure to create the destination stream does not go through the callback:
  download throws it to its caller before any transfer is started, and the
  callback is not called.
\<close>

theorem transfer_error_reaches_callback:
  "(Downloader_get (application this) (BASE_URL @ js_str (channel this) @ ''/'') = (body, errormsg)
      \<and> truthy errormsg
      \<longrightarrow> callbacks (trace (fetchVersions this w)) = [FetchVersionsFinished None errormsg]
          \<and> status (fetchVersions this w) = Returned)
   \<and> (DownloaderGet \<in> set (trace (download this version defaultPath w))
      \<and> Downloader_get (application this)
           (BASE_URL @ js_str (channel this) @ ''/'' @ version @ ''/''
              @ ''crosswalk-'' @ version @ ''.zip'') = (data, errormsg')
      \<and> truthy errormsg'
      \<longrightarrow> callbacks (trace (download this version defaultPath w)) = [DownloadFinished None errormsg']
          \<and> status (download this version defaultPath w) = Returned)
   \<and> length (filter (\<lambda>e. e = DownloaderGet) (trace (fetchVersions this w))) = 1
   \<and> length (filter (\<lambda>e. e = DownloaderGet) (trace (download this version defaultPath w))) \<le> 1
   \<and> (\<not> truthy (DownloadHandler_findLocally (application this) defaultPath
             (''crosswalk-'' @ version @ ''.zip'') (localDirs defaultPath w) w)
      \<and> DownloadHandler_createStream (application this) defaultPath
             (''crosswalk-'' @ version @ ''.zip'') w = Inl e
      \<longrightarrow> status (download this version defaultPath w) = Throws e
          \<and> callbacks (trace (download this version defaultPath w)) = []
          \<and> filter is_network (trace (download this version defaultPath w)) = [])"
proof (intro conjI impI)
  assume "Downloader_get (application this) (BASE_URL @ js_str (channel this) @ ''/'')
            = (body, errormsg) \<and> truthy errormsg"
  then show "callbacks (trace (fetchVersions this w)) = [FetchVersionsFinished None errormsg]"
    and "status (fetchVersions this w) = Returned"
    by (simp_all add: fetchVersions_def Let_def callbacks_def)
next
  assume a: "DownloaderGet \<in> set (trace (download this version defaultPath w))
      \<and> Downloader_get (application this)
           (BASE_URL @ js_str (channel this) @ ''/'' @ version @ ''/''
              @ ''crosswalk-'' @ version @ ''.zip'') = (data, errormsg')
      \<and> truthy errormsg'"
  then show "callbacks (trace (download this version defaultPath w))
               = [DownloadFinished None errormsg']"
    and "status (download this version defaultPath w) = Returned"
    using download_started_error [of this version defaultPath w data errormsg'] by blast+
next
  show "length (filter (\<lambda>e. e = DownloaderGet) (trace (fetchVersions this w))) = 1"
    by (rule count_get_fetchVersions)
next
  show "length (filter (\<lambda>e. e = DownloaderGet) (trace (download this version defaultPath w))) \<le> 1"
    by (rule count_get_download)
next
  assume a: "\<not> truthy (DownloadHandler_findLocally (application this) defaultPath
             (''crosswalk-'' @ version @ ''.zip'') (localDirs defaultPath w) w)
      \<and> DownloadHandler_createStream (application this) defaultPath
             (''crosswalk-'' @ version @ ''.zip'') w = Inl e"
  then have run: "download this version defaultPath w =
     \<lparr>trace = [NewDownloadHandler defaultPath (''crosswalk-'' @ version @ ''.zip''),
               HandlerFindLocally (localDirs defaultPath w),
               CreateFiniteProgress (''Downloading '' @ [CHR 0x27] @ js_str (channel this)
                  @ [CHR 0x27] @ '' '' @ version),
               HandlerCreateStream],
      status = Throws e, final = w\<rparr>"
    using download_throws [of this defaultPath version w e] by blast
  show "status (download this version defaultPath w) = Throws e"
    and "callbacks (trace (download this version defaultPath w)) = []"
    and "filter is_network (trace (download this version defaultPath w)) = []"
    unfolding run by (simp_all add: callbacks_def)
qed

theorem transfer_error_reaches_callback_witness:
  "callbacks (trace (fetchVersions (sample_resolver sample_get_failing) world_empty))
     = [FetchVersionsFinished None (Some ''Download failed: socket hang up'')]
   \<and> callbacks (trace (download (sample_resolver sample_get_failing) ''14.44.360.4'' ''out''
        world_empty)) = [DownloadFinished None (Some ''Download failed: socket hang up'')]
   \<and> status (download (sample_resolver sample_get_ok) ''14.44.360.4'' ''/readonly'' world_readonly)
       = Throws FileCreationFailed"
proof -
  have a: "Downloader_get (application (sample_resolver sample_get_failing)) u
             = (''PK-arch'', Some ''Download failed: socket hang up'')" for u
    by (simp add: sample_resolver_def spec_application_def sample_get_failing_def)
  have b: "truthy (Some ''Download failed: socket hang up'')"
    by (simp add: truthy_def)
  have c: "DownloaderGet \<in> set (trace (download (sample_resolver sample_get_failing)
             ''14.44.360.4'' ''out'' world_empty))"
    by (simp add: sample_failing_download)
  have d: "\<not> truthy (DownloadHandler_findLocally (application (sample_resolver sample_get_ok))
             ''/readonly'' (''crosswalk-'' @ ''14.44.360.4'' @ ''.zip'')
             (localDirs ''/readonly'' world_readonly) world_readonly)"
    by (simp add: sample_resolver_def spec_application_def localDirs_def world_readonly_def
          truthy_def test_f_def)
  have e: "DownloadHandler_createStream (application (sample_resolver sample_get_ok))
             ''/readonly'' (''crosswalk-'' @ ''14.44.360.4'' @ ''.zip'') world_readonly
           = Inl FileCreationFailed"
    by (simp add: sample_resolver_def spec_application_def spec_createStream_def
          world_readonly_def)
  from transfer_error_reaches_callback
         [of "sample_resolver sample_get_failing" "''PK-arch''"
             "Some ''Download failed: socket hang up''" world_empty "''14.44.360.4''" "''out''"
             "''PK-arch''" "Some ''Download failed: socket hang up''"]
       transfer_error_reaches_callback
         [of "sample_resolver sample_get_ok" _ _ world_readonly "''14.44.360.4''" "''/readonly''"
             _ _ FileCreationFailed]
       a b c d e
  show ?thesis by simp
qed

theorem file_creation_failure_thrown_not_reported:
  "status (download (sample_resolver sample_get_ok) ''14.44.360.4'' ''/readonly'' world_readonly)
     = Throws FileCreationFailed
   \<and> filter is_callback
       (trace (download (sample_resolver sample_get_ok) ''14.44.360.4'' ''/readonly''
          world_readonly)) = []"
  by (simp add: sample_readonly_download)

text \<open>
  C5. findLocally looks for crosswalk-V.zip in the current directory and then in
  the parent directory; it returns the first of the two paths that is a file, and
  no path when neither is. It is a total function of the file system into an
  optional path, so it neither throws nor changes the file system.
\<close>

theorem findLocally_cwd_then_parent:
  "(test_f w (''crosswalk-'' @ V @ ''.zip'') \<longrightarrow>
      findLocally w V = Some (''crosswalk-'' @ V @ ''.zip''))
   \<and> (\<not> test_f w (''crosswalk-'' @ V @ ''.zip'') \<and> test_f w (''../crosswalk-'' @ V @ ''.zip'') \<longrightarrow>
      findLocally w V = Some (''../crosswalk-'' @ V @ ''.zip''))
   \<and> (\<not> test_f w (''crosswalk-'' @ V @ ''.zip'') \<and> \<not> test_f w (''../crosswalk-'' @ V @ ''.zip'') \<longrightarrow>
      findLocally w V = None)
   \<and> (\<forall>p. findLocally w V = Some p \<longrightarrow>
        test_f w p \<and> (p = ''crosswalk-'' @ V @ ''.zip'' \<or> p = ''../crosswalk-'' @ V @ ''.zip''))"
  by (auto simp: findLocally_def Let_def split: if_splits)

theorem findLocally_cwd_then_parent_witness:
  "findLocally world_both ''14.44.360.4'' = Some ''crosswalk-14.44.360.4.zip''
   \<and> findLocally world_both ''14.43.343.25'' = Some ''../crosswalk-14.43.343.25.zip''
   \<and> findLocally world_both ''15.0.0.1'' = None"
  using findLocally_cwd_then_parent [of world_both "''14.44.360.4''"]
        findLocally_cwd_then_parent [of world_both "''14.43.343.25''"]
        findLocally_cwd_then_parent [of world_both "''15.0.0.1''"]
  by (simp add: test_f_def world_both_def)

text \<open>
  C6. download asks the handler once for a local copy, in the directories:
  the destination directory, the current directory, and then the cache directory
  exactly when the environment variable CROSSWALK_APP_TOOLS_CACHE_DIR is set to a
  non-empty value. With the DownloadHandler of the specification the first of
  these directories that holds the file wins, and only the existence of files
  counts: replacing the contents of files changes nothing of what download does
  to its collaborators.
\<close>

theorem download_candidate_directories:
  "filter is_findLocally (trace (download this version defaultPath w))
     = [HandlerFindLocally
          ([defaultPath, ''''] @
           (case CROSSWALK_APP_TOOLS_CACHE_DIR w of
              None \<Rightarrow> [] | Some c \<Rightarrow> if c = [] then [] else [c]))]
   \<and> (application this = spec_application transfer parse
        \<and> localDirs defaultPath w = ds1 @ d # ds2
        \<and> (\<forall>x\<in>set ds1. \<not> test_f w (path_join x (''crosswalk-'' @ version @ ''.zip'')))
        \<and> test_f w (path_join d (''crosswalk-'' @ version @ ''.zip''))
      \<longrightarrow> callbacks (trace (download this version defaultPath w))
            = [DownloadFinished (Some (path_join d (''crosswalk-'' @ version @ ''.zip''))) None])
   \<and> (application this = spec_application transfer parse \<and> dom f' = dom (files w)
      \<longrightarrow> trace (download this version defaultPath (w\<lparr>files := f'\<rparr>))
            = trace (download this version defaultPath w))"
proof (intro conjI impI)
  have dirs: "localDirs defaultPath w = [defaultPath, ''''] @
           (case CROSSWALK_APP_TOOLS_CACHE_DIR w of
              None \<Rightarrow> [] | Some c \<Rightarrow> if c = [] then [] else [c])"
    by (simp add: localDirs_def truthy_def js_str_def split: option.splits)
  show "filter is_findLocally (trace (download this version defaultPath w))
     = [HandlerFindLocally
          ([defaultPath, ''''] @
           (case CROSSWALK_APP_TOOLS_CACHE_DIR w of
              None \<Rightarrow> [] | Some c \<Rightarrow> if c = [] then [] else [c]))]"
  proof (cases rule: download_cases [of this defaultPath version w])
    case hit
    then show ?thesis unfolding dirs [symmetric] by (simp add: download_hit)
  next
    case (throws e)
    show ?thesis unfolding dirs [symmetric] by (simp add: download_throws [OF throws])
  next
    case (error w' data errormsg)
    show ?thesis unfolding dirs [symmetric] by (simp add: download_transfer_error [OF error])
  next
    case (finalized w' data errormsg finishedPath w3)
    show ?thesis unfolding dirs [symmetric] by (simp add: download_finalized [OF finalized])
  next
    case (finish_throws w' data errormsg e)
    show ?thesis unfolding dirs [symmetric]
      by (simp add: download_finish_throws [OF finish_throws])
  qed
next
  let ?fn = "''crosswalk-'' @ version @ ''.zip''"
  assume a: "application this = spec_application transfer parse
        \<and> localDirs defaultPath w = ds1 @ d # ds2
        \<and> (\<forall>x\<in>set ds1. \<not> test_f w (path_join x ?fn))
        \<and> test_f w (path_join d ?fn)"
  then have h: "DownloadHandler_findLocally (application this) = spec_findLocally"
    by (simp add: spec_application_def)
  from a have found: "spec_findLocally defaultPath ?fn (localDirs defaultPath w) w
                        = Some (path_join d ?fn)"
    using spec_findLocally_first [of ds1 w ?fn d defaultPath ds2] by simp
  have "truthy (Some (path_join d ?fn))"
    by (simp add: truthy_def path_join_nonempty)
  then have "truthy (DownloadHandler_findLocally (application this) defaultPath ?fn
               (localDirs defaultPath w) w)"
    unfolding h found .
  from download_hit [OF this]
  show "callbacks (trace (download this version defaultPath w))
            = [DownloadFinished (Some (path_join d ?fn)) None]"
    unfolding h found by (simp add: callbacks_def)
next
  let ?fn = "''crosswalk-'' @ version @ ''.zip''"
  assume a: "application this = spec_application transfer parse \<and> dom f' = dom (files w)"
  then have same: "spec_findLocally tp fn ds (w\<lparr>files := f'\<rparr>)
                     = spec_findLocally tp fn ds w" for tp fn ds
    by (simp add: spec_findLocally_existence_only)
  have l: "localDirs defaultPath (w\<lparr>files := f'\<rparr>) = localDirs defaultPath w"
    by (simp add: localDirs_def)
  from a show "trace (download this version defaultPath (w\<lparr>files := f'\<rparr>))
            = trace (download this version defaultPath w)"
    unfolding download_def Let_def l
    by (simp add: spec_application_def same spec_createStream_def spec_finish_def Let_def
          split: prod.splits)
qed

theorem download_candidate_directories_witness:
  "filter is_findLocally
     (trace (download (sample_resolver sample_get_ok) ''14.44.360.4'' ''./out'' world_cached))
     = [HandlerFindLocally [''./out'', '''', ''/tmp/cache'']]
   \<and> callbacks (trace (download (sample_resolver sample_get_ok) ''14.44.360.4'' ''./out''
        world_cached)) = [DownloadFinished (Some ''/tmp/cache/crosswalk-14.44.360.4.zip'') None]
   \<and> trace (download (sample_resolver sample_get_ok) ''14.44.360.4'' ''./out''
        (world_cached\<lparr>files :=
           Map.empty(''/tmp/cache/crosswalk-14.44.360.4.zip'' \<mapsto> ''truncated'')\<rparr>))
     = trace (download (sample_resolver sample_get_ok) ''14.44.360.4'' ''./out'' world_cached)"
proof -
  have a: "application (sample_resolver sample_get_ok) = spec_application sample_get_ok sample_parse"
    by (simp add: sample_resolver_def)
  have b: "localDirs ''./out'' world_cached = [''./out'', ''''] @ ''/tmp/cache'' # []"
    by (simp add: localDirs_def world_cached_def truthy_def js_str_def)
  have c: "\<forall>x\<in>set [''./out'', '''']. \<not> test_f world_cached
             (path_join x (''crosswalk-'' @ ''14.44.360.4'' @ ''.zip''))"
    by (simp add: test_f_def world_cached_def path_join_def)
  have d: "test_f world_cached (path_join ''/tmp/cache'' (''crosswalk-'' @ ''14.44.360.4'' @ ''.zip''))"
    by (simp add: test_f_def world_cached_def path_join_def)
  have e: "dom (Map.empty(''/tmp/cache/crosswalk-14.44.360.4.zip'' \<mapsto> ''truncated''))
             = dom (files world_cached)"
    by (simp add: world_cached_def)
  have f: "CROSSWALK_APP_TOOLS_CACHE_DIR world_cached = Some ''/tmp/cache''"
    by (simp add: world_cached_def)
  from download_candidate_directories
         [of "sample_resolver sample_get_ok" "''14.44.360.4''" "''./out''" world_cached
             sample_get_ok sample_parse "[''./out'', '''']" "''/tmp/cache''" "[]"
             "Map.empty(''/tmp/cache/crosswalk-14.44.360.4.zip'' \<mapsto> ''truncated'')"]
       a b c d e
  show ?thesis
    by (simp add: f path_join_def)
qed

text \<open>
  C7. For a resolver on channel c, every Downloader that download builds is given
  the URL BASE_URL + c + "/" + version + "/" + "crosswalk-" + version + ".zip",
  and one is built whenever no local copy is found and the destination stream is
  created.
\<close>

theorem download_url_canonical:
  assumes "channel this = Some c"
  shows "(\<forall>u. NewDownloader u \<in> set (trace (download this version defaultPath w)) \<longrightarrow>
            u = BASE_URL @ c @ ''/'' @ version @ ''/'' @ ''crosswalk-'' @ version @ ''.zip'')
       \<and> (\<not> truthy (DownloadHandler_findLocally (application this) defaultPath
               (''crosswalk-'' @ version @ ''.zip'') (localDirs defaultPath w) w)
          \<and> DownloadHandler_createStream (application this) defaultPath
               (''crosswalk-'' @ version @ ''.zip'') w = Inr w1
          \<longrightarrow> NewDownloader (BASE_URL @ c @ ''/'' @ version @ ''/'' @ ''crosswalk-'' @ version
                   @ ''.zip'') \<in> set (trace (download this version defaultPath w)))"
proof (cases rule: download_cases [of this defaultPath version w])
  case hit
  then show ?thesis by (simp add: download_hit)
next
  case (throws e)
  then show ?thesis by (simp add: download_throws [OF throws])
next
  case (error w' data errormsg)
  show ?thesis using assms by (simp add: download_transfer_error [OF error] js_str_def)
next
  case (finalized w' data errormsg finishedPath w3)
  show ?thesis using assms by (simp add: download_finalized [OF finalized] js_str_def)
next
  case (finish_throws w' data errormsg e)
  show ?thesis using assms by (simp add: download_finish_throws [OF finish_throws] js_str_def)
qed

theorem download_url_canonical_witness:
  "NewDownloader
     ''https://download.01.org/crosswalk/releases/crosswalk/android/stable/14.44.360.4/crosswalk-14.44.360.4.zip''
     \<in> set (trace (download (sample_resolver sample_get_ok) ''14.44.360.4'' ''out'' world_empty))"
  using download_url_canonical
          [of "sample_resolver sample_get_ok" "''stable''" "''14.44.360.4''" "''out''" world_empty
              "world_empty\<lparr>files := Map.empty(''out/crosswalk-14.44.360.4.zip.part'' \<mapsto> [])\<rparr>"]
  by (simp add: sample_resolver_def spec_application_def localDirs_def world_empty_def
        truthy_def test_f_def path_join_def spec_createStream_def temporary_path_def BASE_URL_def)

text \<open>
  C8. When the transfer reports no error, fetchVersions hands the whole response
  body to the index parser and calls back once, with exactly the list the parser
  returned (same elements, same order, duplicates kept) and no error message.
\<close>

theorem fetchVersions_delivers_parser_result:
  assumes "Downloader_get (application this) (BASE_URL @ js_str (channel this) @ ''/'')
             = (body, errormsg)"
    and "\<not> truthy errormsg"
    and "IndexParser_parse (application this) body = Inr versions"
  shows "callbacks (trace (fetchVersions this w)) = [FetchVersionsFinished (Some versions) None]
         \<and> NewIndexParser body \<in> set (trace (fetchVersions this w))
         \<and> status (fetchVersions this w) = Returned"
  using assms by (simp add: fetchVersions_def Let_def callbacks_def)

theorem fetchVersions_delivers_parser_result_witness:
  "callbacks (trace (fetchVersions (sample_resolver sample_get_ok) world_empty))
     = [FetchVersionsFinished (Some [''14.43.343.25'', ''14.44.360.4'']) None]
   \<and> status (fetchVersions (sample_resolver sample_get_ok) world_empty) = Returned"
  using fetchVersions_delivers_parser_result
          [of "sample_resolver sample_get_ok" "''PK-archive''" None
              "[''14.43.343.25'', ''14.44.360.4'']" world_empty]
  by (simp add: sample_resolver_def spec_application_def sample_get_ok_def sample_parse_def
        truthy_def)




text \<open>
  C10. The property is not read-only in effect. An assignment to
  AndroidDependencies.CHANNELS does nothing, but the getter returns the module's
  own array: after AndroidDependencies.CHANNELS.push("nightly") the getter
  returns four channels, and the constructor, which rejected nightly before,
  accepts it.
\<close>

theorem CHANNELS_getter_exposes_live_array:
  "CHANNELS_get module_init = [''stable'', ''beta'', ''canary'']
   \<and> CHANNELS_get (CHANNELS_get_push ''nightly'' module_init)
       = [''stable'', ''beta'', ''canary'', ''nightly'']
   \<and> AndroidDependencies_new module_init () (Some ''nightly'') = Inl InvalidChannelError
   \<and> AndroidDependencies_new (CHANNELS_get_push ''nightly'' module_init) () (Some ''nightly'')
       = Inr \<lparr>application = (), channel = Some ''nightly''\<rparr>"
  by (simp add: CHANNELS_get_def CHANNELS_get_push_def module_init_def
        AndroidDependencies_new_def InvalidChannelError_new_def truthy_def js_str_def)

end
